theory Spec2Isabelle
  imports Main "HOL-Library.Word" "HOL-Library.Signed_Division"
begin

section \<open>The GPIO PPS signal generator (drivers/pps/generators/pps_gen_gpio.c)\<close>

text \<open>
  The driver is embedded shallowly.  Memory (the module's two globals and the fields of
  \<^verbatim>\<open>struct pps_gen_gpio_devdata\<close>) is a record that every function takes and returns.
  Everything outside the file (the wall clock, the GPIO line, the kernel log, the timer
  and driver core) is a \<open>world\<close>: a clock that answers the n-th read with a fixed
  reading, a counter of the reads made so far, and the trace of the calls the driver made,
  in order.

  Numbers.  \<^verbatim>\<open>gpio_pulse_width_ns\<close> is an \<^verbatim>\<open>unsigned int\<close> and is a 32-bit word.  The
  nanosecond quantities of type \<^verbatim>\<open>long\<close>, \<^verbatim>\<open>s64\<close> and \<^verbatim>\<open>ktime_t\<close> are mathematical
  integers.  The width of \<^verbatim>\<open>long\<close> differs between the 32-bit and the 64-bit builds of
  this kernel and is a parameter of the platform, \<open>long_bits\<close>.  Where a latency sample
  enters the state, from line 154 to the rearm at line 172, the \<^verbatim>\<open>long\<close> arithmetic of the
  source is written out with its wrap-around (the kernel is built with wrapping signed
  arithmetic).  Elsewhere (the two thresholds, the port write time, the sum of the
  calibration and the deadline of the regression branch) the quantities are computed as
  integers.  The division \<^verbatim>\<open>/\<close> of C truncates towards zero and is \<open>sdiv\<close>; \<open>div\<close> of
  HOL rounds down and is used only where the kernel's own helper rounds down.
\<close>

subsection \<open>Constants\<close>

text \<open>Modelled from the spec: the kernel macro \<^verbatim>\<open>NSEC_PER_SEC\<close> (include/linux/time64.h)
  is not in the source file; the spec writes it 1_000_000_000.\<close>

definition NSEC_PER_SEC :: int where
  "NSEC_PER_SEC = 1000000000"

text \<open>Modelled from the spec: the kernel macro \<^verbatim>\<open>NSEC_PER_USEC\<close> is not in the source
  file; the spec gives the maximal width \<^verbatim>\<open>100 * NSEC_PER_USEC\<close> as 100,000 ns and the
  safety interval \<^verbatim>\<open>10 * NSEC_PER_USEC\<close> as 10,000 ns.\<close>

definition NSEC_PER_USEC :: int where
  "NSEC_PER_USEC = 1000"

definition GPIO_PULSE_WIDTH_DEF_NS :: int where
  "GPIO_PULSE_WIDTH_DEF_NS = 30 * NSEC_PER_USEC"

definition GPIO_PULSE_WIDTH_MAX_NS :: int where
  "GPIO_PULSE_WIDTH_MAX_NS = 100 * NSEC_PER_USEC"

definition SAFETY_INTERVAL_NS :: int where
  "SAFETY_INTERVAL_NS = 10 * NSEC_PER_USEC"

definition PPS_GEN_CALIBRATE_LOOPS :: nat where
  "PPS_GEN_CALIBRATE_LOOPS = 100"

text \<open>Modelled from the spec: the errno values of the kernel headers are not in the source
  file; the spec only calls the failure a ConfigurationError.  \<^verbatim>\<open>EINVAL\<close> is 22 and
  \<^verbatim>\<open>ENOMEM\<close> is 12 on Linux.\<close>

definition EINVAL :: int where
  "EINVAL = 22"

definition ENOMEM :: int where
  "ENOMEM = 12"

subsection \<open>Data\<close>

datatype pps_gen_gpio_level = PPS_GPIO_LOW | PPS_GPIO_HIGH

datatype hrtimer_restart = HRTIMER_NORESTART | HRTIMER_RESTART

record timespec =
  tv_sec :: int
  tv_nsec :: int

text \<open>The calls the driver makes on its surroundings, as they appear in the trace.\<close>

datatype event =
    Local_irq_save
  | Local_irq_restore
  | Clock_read timespec
  | Gpiod_set_value pps_gen_gpio_level
  | Pr_err_late timespec timespec
  | Pr_info_gpio_event
  | Pr_info_calibrated int
  | Pr_info_probe
  | Dev_err_gpio_count
  | Dev_err_gpio_get int
  | Dev_err_gpio_dir
  | Devm_gpiod_get_out_low bool
  | Gpiod_direction_output pps_gen_gpio_level int
  | Devm_gpiod_put
  | Devm_kfree
  | Hrtimer_init
  | Hrtimer_start int
  | Hrtimer_cancel
  | Pr_err_width
  | Platform_driver_register
  | Platform_driver_unregister
  | Pr_info_avg_latency int

text \<open>Modelled from the spec: the kernel macro \<^verbatim>\<open>BITS_PER_LONG\<close>, the width of a C
  \<^verbatim>\<open>long\<close> on the platform (32 or 64), is not in the source file and the spec does not fix
  it; it is the field \<open>long_bits\<close> of the world.\<close>

record world =
  clock :: "nat \<Rightarrow> timespec"
  reads :: nat
  trace :: "event list"
  long_bits :: nat

text \<open>
  The driver's memory: the module parameter \<^verbatim>\<open>width\<close>, the static
  \<^verbatim>\<open>hrtimer_avg_latency\<close>, and of the device data the measured port write time and the
  expiry time of the embedded timer (a \<^verbatim>\<open>ktime_t\<close>, in nanoseconds).  The GPIO descriptor
  is an opaque handle to the one line of the device; the calls on it are in the trace.
\<close>

record pps_gen_gpio =
  gpio_pulse_width_ns :: "32 word"
  hrtimer_avg_latency :: int
  gpio_instr_time :: int
  timer_expires :: int

subsection \<open>The arithmetic of \<^verbatim>\<open>long\<close>\<close>

text \<open>The value a \<^verbatim>\<open>long\<close> of the given width holds after an assignment or an operation
  whose mathematical result is \<open>x\<close>: \<open>x\<close> reduced modulo 2 to the power \<open>bits\<close> into the
  signed range.  Addition, subtraction and multiplication wrap as a whole, so one
  reduction of the result of an expression is the same as a reduction after each step.\<close>

definition long_wrap :: "nat \<Rightarrow> int \<Rightarrow> int" where
  "long_wrap bits x = (x + 2 ^ (bits - 1)) mod 2 ^ bits - 2 ^ (bits - 1)"

text \<open>\<open>x\<close> is a value of a \<^verbatim>\<open>long\<close> of the given width.\<close>

definition fits_long :: "nat \<Rightarrow> int \<Rightarrow> bool" where
  "fits_long bits x \<longleftrightarrow> 0 < bits \<and> - (2 ^ (bits - 1)) \<le> x \<and> x < 2 ^ (bits - 1)"

subsection \<open>The kernel's time helpers\<close>

text \<open>Modelled from the spec: \<^verbatim>\<open>timespec64_sub\<close> (\<^verbatim>\<open>TIMESPEC_SUB\<close>) is kernel code outside
  the source file.  The spec uses it as the difference of two time points; the kernel
  normalises the result so that its nanoseconds lie in [0, NSEC_PER_SEC).\<close>

definition TIMESPEC_SUB :: "timespec \<Rightarrow> timespec \<Rightarrow> timespec" where
  "TIMESPEC_SUB lhs rhs =
     (let sec = tv_sec lhs - tv_sec rhs; nsec = tv_nsec lhs - tv_nsec rhs
      in \<lparr>tv_sec = sec + nsec div NSEC_PER_SEC, tv_nsec = nsec mod NSEC_PER_SEC\<rparr>)"

text \<open>Modelled from the spec: \<^verbatim>\<open>timespec64_to_ns\<close> (\<^verbatim>\<open>TIMESPEC_TO_NS\<close>) is kernel code
  outside the source file.  The spec reads a difference of time points as a number of
  nanoseconds.\<close>

definition TIMESPEC_TO_NS :: "timespec \<Rightarrow> int" where
  "TIMESPEC_TO_NS ts = tv_sec ts * NSEC_PER_SEC + tv_nsec ts"

text \<open>Modelled from the spec: \<^verbatim>\<open>ktime_set\<close> is kernel code outside the source file.  The
  spec's deadline is the absolute time point (seconds, nanoseconds); as a \<^verbatim>\<open>ktime_t\<close> it
  is the number of nanoseconds since the epoch.  (The kernel saturates at \<^verbatim>\<open>KTIME_SEC_MAX\<close>,
  about 292 years; this is not modelled.)\<close>

definition ktime_set :: "int \<Rightarrow> int \<Rightarrow> int" where
  "ktime_set secs nsecs = secs * NSEC_PER_SEC + nsecs"

text \<open>Modelled from the spec: \<^verbatim>\<open>ktime_to_timespec64\<close> (\<^verbatim>\<open>KTIME_TO_TIMESPEC\<close>) is kernel
  code outside the source file.  It gives the (seconds, nanoseconds) of a \<^verbatim>\<open>ktime_t\<close>,
  the nanoseconds in [0, NSEC_PER_SEC).\<close>

definition KTIME_TO_TIMESPEC :: "int \<Rightarrow> timespec" where
  "KTIME_TO_TIMESPEC kt = \<lparr>tv_sec = kt div NSEC_PER_SEC, tv_nsec = kt mod NSEC_PER_SEC\<rparr>"

subsection \<open>The surroundings\<close>

text \<open>Modelled from the spec: the wall clock (\<^verbatim>\<open>ktime_get_real_ts64\<close>, \<^verbatim>\<open>GETNSTIMEOFDAY\<close>)
  is outside the source file.  The spec's clock is \<open>now() \<rightarrow> (seconds, nanoseconds)\<close>, not
  monotonic; a simulated clock returns a fixed sequence of readings.\<close>

definition GETNSTIMEOFDAY :: "world \<Rightarrow> timespec \<times> world" where
  "GETNSTIMEOFDAY w =
     (clock w (reads w),
      w\<lparr>reads := Suc (reads w), trace := trace w @ [Clock_read (clock w (reads w))]\<rparr>)"

text \<open>Modelled from the spec: every other call on the surroundings (the output line, the
  log, interrupt masking, the timer and driver core) is outside the source file and is
  recorded in the trace, in the order of the calls.\<close>

definition emit :: "event \<Rightarrow> world \<Rightarrow> world" where
  "emit e w = w\<lparr>trace := trace w @ [e]\<rparr>"

text \<open>Modelled from the spec: the GPIO calls are kernel code outside the source file.
  The output capability is \<open>set(level)\<close>, its direction configured before the loop
  starts: acquiring the line with \<^verbatim>\<open>GPIOD_OUT_LOW\<close> makes it an output at LOW, and a
  successful \<^verbatim>\<open>gpiod_direction_output\<close> and \<^verbatim>\<open>gpiod_set_value\<close> drive it to the level
  given.  \<open>line_level\<close> reads the level the line was last driven to off a trace.\<close>

fun line_level :: "event list \<Rightarrow> pps_gen_gpio_level option \<Rightarrow> pps_gen_gpio_level option" where
  "line_level [] l = l"
| "line_level (Devm_gpiod_get_out_low ok # es) l =
     line_level es (if ok then Some PPS_GPIO_LOW else l)"
| "line_level (Gpiod_direction_output v ret # es) l =
     line_level es (if ret < 0 then l else Some v)"
| "line_level (Gpiod_set_value v # es) l = line_level es (Some v)"
| "line_level (e # es) l = line_level es l"

subsection \<open>The timer callback\<close>

text \<open>
  Both busy loops of \<^verbatim>\<open>hrtimer_callback\<close> are
  \<^verbatim>\<open>do GETNSTIMEOFDAY(&ts1); while (ts_expire_req.tv_sec == ts1.tv_sec && ts1.tv_nsec < lim);\<close>
  with \<open>lim\<close> the assert time in the first and the deassert time in the second.  The loop
  may run forever; it is a partial function, and \<open>None\<close> is not returning.
\<close>

definition busy_cond :: "int \<Rightarrow> int \<Rightarrow> timespec \<Rightarrow> bool" where
  "busy_cond req_sec lim ts1 \<longleftrightarrow> req_sec = tv_sec ts1 \<and> tv_nsec ts1 < lim"

partial_function (option) busy_loop :: "int \<Rightarrow> int \<Rightarrow> world \<Rightarrow> (timespec \<times> world) option" where
  "busy_loop req_sec lim w =
     (case GETNSTIMEOFDAY w of
        (ts1, w') \<Rightarrow>
          if busy_cond req_sec lim ts1 then busy_loop req_sec lim w'
          else Some (ts1, w'))"

text \<open>The statement at lines 161 to 165: the new average of the timer latency.  Both
  operands are \<^verbatim>\<open>long\<close>, and so is \<^verbatim>\<open>3 * hrtimer_avg_latency + hrtimer_latency\<close>.\<close>

definition avg_latency_update :: "nat \<Rightarrow> int \<Rightarrow> int \<Rightarrow> int" where
  "avg_latency_update bits avg hrtimer_latency =
     (if hrtimer_latency > avg then hrtimer_latency
      else long_wrap bits (3 * avg + hrtimer_latency) sdiv 4)"

text \<open>The code from the label \<^verbatim>\<open>done:\<close> to the return.  \<open>time_gpio_assert_ns\<close> is the
  local constant computed at the entry of the callback.  \<^verbatim>\<open>hrtimer_latency\<close> is a
  \<^verbatim>\<open>long\<close> assigned from the \<^verbatim>\<open>s64\<close> of \<^verbatim>\<open>TIMESPEC_TO_NS\<close> (line 154), and the nanoseconds
  of the new expiry time are \<^verbatim>\<open>long\<close> arithmetic (lines 170 to 172).\<close>

definition hrtimer_callback_done ::
  "nat \<Rightarrow> int \<Rightarrow> timespec \<Rightarrow> timespec \<Rightarrow> pps_gen_gpio \<Rightarrow> pps_gen_gpio" where
  "hrtimer_callback_done bits time_gpio_assert_ns ts_expire_req ts_expire_real s =
     (let ts_hrtimer_latency = TIMESPEC_SUB ts_expire_real ts_expire_req;
          hrtimer_latency = long_wrap bits (TIMESPEC_TO_NS ts_hrtimer_latency);
          avg = avg_latency_update bits (hrtimer_avg_latency s) hrtimer_latency
      in s\<lparr>hrtimer_avg_latency := avg,
            timer_expires := ktime_set (tv_sec ts_expire_req + 1)
                               (long_wrap bits (time_gpio_assert_ns - avg - SAFETY_INTERVAL_NS))\<rparr>)"

definition hrtimer_callback ::
  "pps_gen_gpio \<Rightarrow> world \<Rightarrow> (hrtimer_restart \<times> pps_gen_gpio \<times> world) option" where
  "hrtimer_callback s w =
     (let time_gpio_deassert_ns = NSEC_PER_SEC - gpio_instr_time s;
          time_gpio_assert_ns = time_gpio_deassert_ns - uint (gpio_pulse_width_ns s);
          (ts_expire_real, w1) = GETNSTIMEOFDAY (emit Local_irq_save w);
          ts_expire_req = KTIME_TO_TIMESPEC (timer_expires s)
      in
        if tv_sec ts_expire_real > tv_sec ts_expire_req then
          Some (HRTIMER_RESTART,
                s\<lparr>timer_expires := ktime_set (tv_sec ts_expire_real + 1)
                     (time_gpio_assert_ns - hrtimer_avg_latency s - SAFETY_INTERVAL_NS)\<rparr>,
                w1)
        else if tv_sec ts_expire_req \<noteq> tv_sec ts_expire_real
                \<or> tv_nsec ts_expire_real > time_gpio_assert_ns then
          Some (HRTIMER_RESTART,
                hrtimer_callback_done (long_bits w) time_gpio_assert_ns ts_expire_req
                  ts_expire_real s,
                emit (Pr_err_late ts_expire_req ts_expire_real) (emit Local_irq_restore w1))
        else
          (case busy_loop (tv_sec ts_expire_req) time_gpio_assert_ns
                  (emit Pr_info_gpio_event w1) of
             None \<Rightarrow> None
           | Some (ts1a, w2) \<Rightarrow>
              (case busy_loop (tv_sec ts_expire_req) time_gpio_deassert_ns
                      (emit (Gpiod_set_value PPS_GPIO_HIGH) w2) of
                 None \<Rightarrow> None
               | Some (ts1, w3) \<Rightarrow>
                  (let (ts2, w4) = GETNSTIMEOFDAY (emit (Gpiod_set_value PPS_GPIO_LOW) w3);
                       w5 = emit Local_irq_restore w4;
                       ts_gpio_instr_time = TIMESPEC_SUB ts2 ts1;
                       s1 = s\<lparr>gpio_instr_time :=
                               (gpio_instr_time s + TIMESPEC_TO_NS ts_gpio_instr_time) sdiv 2\<rparr>
                   in Some (HRTIMER_RESTART,
                            hrtimer_callback_done (long_bits w) time_gpio_assert_ns
                              ts_expire_req ts_expire_real s1,
                            w5)))))"

subsection \<open>Calibration and the first deadline\<close>

text \<open>The \<^verbatim>\<open>for\<close> loop of \<^verbatim>\<open>pps_gen_calibrate\<close>, from the value \<open>i\<close> of its counter.\<close>

function pps_gen_calibrate_loop :: "nat \<Rightarrow> int \<Rightarrow> world \<Rightarrow> int \<times> world" where
  "pps_gen_calibrate_loop i time_acc w =
     (if i < PPS_GEN_CALIBRATE_LOOPS then
        (let (ts1, w1) = GETNSTIMEOFDAY (emit Local_irq_save w);
             (ts2, w2) = GETNSTIMEOFDAY (emit (Gpiod_set_value PPS_GPIO_LOW) w1);
             w3 = emit Local_irq_restore w2;
             ts_delta = TIMESPEC_SUB ts2 ts1
         in pps_gen_calibrate_loop (i + 1) (time_acc + TIMESPEC_TO_NS ts_delta) w3)
      else (time_acc, w))"
  by pat_completeness auto
termination
  by (relation "measure (\<lambda>(i, time_acc, w). PPS_GEN_CALIBRATE_LOOPS - i)") auto

definition pps_gen_calibrate :: "pps_gen_gpio \<Rightarrow> world \<Rightarrow> pps_gen_gpio \<times> world" where
  "pps_gen_calibrate s w =
     (let (time_acc, w1) = pps_gen_calibrate_loop 0 0 w;
          s1 = s\<lparr>gpio_instr_time := time_acc sdiv int PPS_GEN_CALIBRATE_LOOPS\<rparr>
      in (s1, emit (Pr_info_calibrated (gpio_instr_time s1)) w1))"

definition pps_gen_first_timer_event :: "pps_gen_gpio \<Rightarrow> world \<Rightarrow> int \<times> world" where
  "pps_gen_first_timer_event s w =
     (let (ts, w1) = GETNSTIMEOFDAY w
      in (ktime_set (tv_sec ts + 1)
            (NSEC_PER_SEC - uint (gpio_pulse_width_ns s)
             - gpio_instr_time s - 3 * SAFETY_INTERVAL_NS),
          w1))"

subsection \<open>Probe, remove, module init and exit\<close>

text \<open>Modelled from the spec: what the platform answers to the probe is outside the source
  file: whether the allocation succeeds, the number of GPIOs the device tree names, the
  error of \<^verbatim>\<open>devm_gpiod_get\<close> if it fails (\<open>None\<close> is a valid descriptor) and the return
  value of \<^verbatim>\<open>gpiod_direction_output\<close>.\<close>

record probe_env =
  kzalloc_ok :: bool
  gpio_named_count :: int
  gpiod_get_err :: "int option"
  direction_output_ret :: int

definition pps_gen_gpio_probe ::
  "probe_env \<Rightarrow> pps_gen_gpio \<Rightarrow> world \<Rightarrow> int \<times> pps_gen_gpio \<times> world" where
  "pps_gen_gpio_probe env s w =
     (let w0 = emit Pr_info_probe w in
      if \<not> kzalloc_ok env then (- ENOMEM, s, w0)
      else
        let devdata = s\<lparr>gpio_instr_time := 0, timer_expires := 0\<rparr> in
        if gpio_named_count env \<noteq> 1 then
          (- EINVAL, devdata, emit Devm_kfree (emit Dev_err_gpio_count w0))
        else
          (case gpiod_get_err env of
             Some ret \<Rightarrow>
               (ret, devdata,
                emit Devm_kfree (emit (Dev_err_gpio_get ret)
                  (emit (Devm_gpiod_get_out_low False) w0)))
           | None \<Rightarrow>
              (let w1 = emit (Devm_gpiod_get_out_low True) w0;
                   ret = direction_output_ret env;
                   w2 = emit (Gpiod_direction_output PPS_GPIO_HIGH ret) w1
               in
                 if ret < 0 then
                   (ret, devdata,
                    emit Devm_kfree (emit Devm_gpiod_put (emit Dev_err_gpio_dir w2)))
                 else
                   (let (s1, w3) = pps_gen_calibrate devdata w2;
                        w4 = emit Hrtimer_init w3;
                        (kt, w5) = pps_gen_first_timer_event s1 w4
                    in (0, s1\<lparr>timer_expires := kt\<rparr>, emit (Hrtimer_start kt) w5)))))"

definition pps_gen_gpio_remove :: "pps_gen_gpio \<Rightarrow> world \<Rightarrow> int \<times> pps_gen_gpio \<times> world" where
  "pps_gen_gpio_remove s w = (0, s, emit Hrtimer_cancel (emit Devm_gpiod_put w))"

definition pps_gen_gpio_init :: "pps_gen_gpio \<Rightarrow> world \<Rightarrow> int \<times> world" where
  "pps_gen_gpio_init s w =
     (if uint (gpio_pulse_width_ns s) > GPIO_PULSE_WIDTH_MAX_NS then
        (- EINVAL, emit Pr_err_width w)
      else (0, emit Platform_driver_register w))"

definition pps_gen_gpio_exit :: "pps_gen_gpio \<Rightarrow> world \<Rightarrow> world" where
  "pps_gen_gpio_exit s w =
     emit Platform_driver_unregister (emit (Pr_info_avg_latency (hrtimer_avg_latency s)) w)"

subsection \<open>Notions used in the statements\<close>

text \<open>The clock reads number \<open>a\<close> to \<open>b - 1\<close>, as they stand in a trace.\<close>

definition clock_reads :: "world \<Rightarrow> nat \<Rightarrow> nat \<Rightarrow> event list" where
  "clock_reads w a b = map (\<lambda>j. Clock_read (clock w j)) [a..<b]"

text \<open>A busy loop entered before read number \<open>n\<close> makes its last read at number \<open>m\<close>: the
  readings \<open>n\<close> to \<open>m - 1\<close> satisfy the loop condition and reading \<open>m\<close> does not.\<close>

definition loop_last_read :: "int \<Rightarrow> int \<Rightarrow> (nat \<Rightarrow> timespec) \<Rightarrow> nat \<Rightarrow> nat \<Rightarrow> bool" where
  "loop_last_read req_sec lim clk n m \<longleftrightarrow>
     n \<le> m \<and> list_all (busy_cond req_sec lim) (map clk [n..<m])
     \<and> \<not> busy_cond req_sec lim (clk m)"

text \<open>The averages the latency tracker goes through when it is fed a list of samples.\<close>

fun avg_latency_run :: "nat \<Rightarrow> int \<Rightarrow> int list \<Rightarrow> int list" where
  "avg_latency_run bits avg [] = []"
| "avg_latency_run bits avg (x # xs) =
     avg_latency_update bits avg x # avg_latency_run bits (avg_latency_update bits avg x) xs"

text \<open>The elapsed time of iteration \<open>i\<close> of the calibration that starts in world \<open>w\<close>:
  the difference of its two clock readings.\<close>

definition toggle_duration :: "world \<Rightarrow> nat \<Rightarrow> int" where
  "toggle_duration w i =
     TIMESPEC_TO_NS (clock w (reads w + 2 * i + 1)) - TIMESPEC_TO_NS (clock w (reads w + 2 * i))"

text \<open>The trace of iteration \<open>i\<close> of the calibration that starts in world \<open>w\<close>.\<close>

definition calibrate_step_trace :: "world \<Rightarrow> nat \<Rightarrow> event list" where
  "calibrate_step_trace w i =
     [Local_irq_save, Clock_read (clock w (reads w + 2 * i)),
      Gpiod_set_value PPS_GPIO_LOW, Clock_read (clock w (reads w + 2 * i + 1)),
      Local_irq_restore]"

subsection \<open>Concrete inputs\<close>

text \<open>A simulated clock: the readings of a list, then a fixed reading.  The worlds below
  are 64-bit platforms unless they say otherwise.\<close>

definition listed_clock :: "timespec list \<Rightarrow> timespec \<Rightarrow> nat \<Rightarrow> timespec" where
  "listed_clock xs after n = (if n < length xs then xs ! n else after)"

definition at_time :: "int \<Rightarrow> int \<Rightarrow> timespec" where
  "at_time sec nsec = \<lparr>tv_sec = sec, tv_nsec = nsec\<rparr>"

definition world_of :: "timespec list \<Rightarrow> timespec \<Rightarrow> world" where
  "world_of xs after =
     \<lparr>clock = listed_clock xs after, reads = 0, trace = [], long_bits = 64\<rparr>"

text \<open>A device with the default width of 30 us, a port write time of 1 us, the initial
  average latency of 10 us, and its timer set for second 100 at 999949000 ns, which is
  the assert time 999969000 less the average latency and the safety interval.\<close>

definition example_state :: pps_gen_gpio where
  "example_state =
     \<lparr>gpio_pulse_width_ns = 30000, hrtimer_avg_latency = 10000,
      gpio_instr_time = 1000, timer_expires = ktime_set 100 999949000\<rparr>"

text \<open>An on-time wake 1 us after the deadline; the first loop reads twice, the second
  twice, and the port write takes 800 ns.\<close>

definition on_time_world :: world where
  "on_time_world =
     world_of [at_time 100 999950000, at_time 100 999960000, at_time 100 999969000,
               at_time 100 999980000, at_time 100 999999000, at_time 100 999999800]
       (at_time 101 0)"

text \<open>A wake in the requested second but 1 us after the assert time.\<close>

definition late_world :: world where
  "late_world = world_of [at_time 100 999970000] (at_time 101 0)"

text \<open>A wake five seconds after the requested second.\<close>

definition regression_world :: world where
  "regression_world = world_of [at_time 105 123] (at_time 106 0)"

text \<open>A clock that stays in second 100 below both thresholds for three reads and then
  shows second 101 for ever.\<close>

definition stuck_world :: world where
  "stuck_world =
     world_of [at_time 100 999950000, at_time 100 999950100, at_time 100 999950200]
       (at_time 101 0)"

text \<open>A clock whose readings are 400 ns apart, but for reading 199, which is 50 ns
  later: every port write of the calibration takes 400 ns and the last one 450 ns.\<close>

definition ticking_world :: world where
  "ticking_world =
     \<lparr>clock = (\<lambda>n. at_time 50 (400 * int n + (if n = 199 then 50 else 0))),
      reads = 0, trace = [], long_bits = 64\<rparr>"

text \<open>A 32-bit platform whose clock was set back by three seconds: the timer set for
  second 100 at 999949000 ns fires when the clock shows second 97 at 999949000 ns.\<close>

definition backward_world32 :: world where
  "backward_world32 = (world_of [at_time 97 999949000] (at_time 101 0))\<lparr>long_bits := 32\<rparr>"

text \<open>The example device with an average latency of 4000000000000000000 ns.\<close>

definition huge_avg_state :: pps_gen_gpio where
  "huge_avg_state = example_state\<lparr>hrtimer_avg_latency := 4000000000000000000\<rparr>"

definition good_env :: probe_env where
  "good_env =
     \<lparr>kzalloc_ok = True, gpio_named_count = 1, gpiod_get_err = None,
      direction_output_ret = 0\<rparr>"

section \<open>Helper lemmas\<close>

lemma emit_simps [simp]:
  "clock (emit e w) = clock w" "reads (emit e w) = reads w" "trace (emit e w) = trace w @ [e]"
  by (simp_all add: emit_def)

lemma GETNSTIMEOFDAY_simps [simp]:
  "fst (GETNSTIMEOFDAY w) = clock w (reads w)"
  "clock (snd (GETNSTIMEOFDAY w)) = clock w"
  "reads (snd (GETNSTIMEOFDAY w)) = Suc (reads w)"
  "trace (snd (GETNSTIMEOFDAY w)) = trace w @ [Clock_read (clock w (reads w))]"
  by (simp_all add: GETNSTIMEOFDAY_def)

lemma TIMESPEC_TO_NS_SUB: "TIMESPEC_TO_NS (TIMESPEC_SUB a b) = TIMESPEC_TO_NS a - TIMESPEC_TO_NS b"
proof -
  have "(tv_nsec a - tv_nsec b) div NSEC_PER_SEC * NSEC_PER_SEC
          + (tv_nsec a - tv_nsec b) mod NSEC_PER_SEC = tv_nsec a - tv_nsec b"
    by simp
  then show ?thesis
    by (simp add: TIMESPEC_TO_NS_def TIMESPEC_SUB_def Let_def algebra_simps)
qed

lemma busy_loop_exit:
  assumes "\<forall>j<m. busy_cond req_sec lim (clock w (reads w + j))"
    and "\<not> busy_cond req_sec lim (clock w (reads w + m))"
  shows "busy_loop req_sec lim w =
           Some (clock w (reads w + m),
                 w\<lparr>reads := reads w + m + 1,
                   trace := trace w @ map (\<lambda>j. Clock_read (clock w j)) [reads w ..< reads w + m + 1]\<rparr>)"
  using assms
proof (induction m arbitrary: w)
  case 0
  then show ?case by (subst busy_loop.simps) (simp add: GETNSTIMEOFDAY_def)
next
  case (Suc m)
  let ?w' = "w\<lparr>reads := Suc (reads w), trace := trace w @ [Clock_read (clock w (reads w))]\<rparr>"
  have c0: "busy_cond req_sec lim (clock w (reads w))" using Suc.prems(1) by force
  have a: "\<forall>j<m. busy_cond req_sec lim (clock ?w' (reads ?w' + j))"
    using Suc.prems(1) by auto
  have b: "\<not> busy_cond req_sec lim (clock ?w' (reads ?w' + m))"
    using Suc.prems(2) by simp
  have "busy_loop req_sec lim w = busy_loop req_sec lim ?w'"
    by (subst busy_loop.simps) (simp add: GETNSTIMEOFDAY_def c0)
  also note Suc.IH [OF a b]
  finally have e: "busy_loop req_sec lim w =
      Some (clock ?w' (reads ?w' + m),
            ?w'\<lparr>reads := reads ?w' + m + 1,
              trace := trace ?w' @ map (\<lambda>j. Clock_read (clock ?w' j)) [reads ?w' ..< reads ?w' + m + 1]\<rparr>)" .
  have l: "[reads w ..< reads w + Suc m + 1] = reads w # [Suc (reads w) ..< Suc (reads w) + m + 1]"
    by (simp add: upt_conv_Cons del: upt_Suc)
  show ?case unfolding e l by (simp del: upt_Suc)
qed

lemma busy_loop_last_read:
  assumes "loop_last_read req_sec lim (clock w) (reads w) m"
  shows "busy_loop req_sec lim w =
           Some (clock w m, w\<lparr>reads := Suc m, trace := trace w @ clock_reads w (reads w) (Suc m)\<rparr>)"
proof -
  from assms have le: "reads w \<le> m"
    and all: "\<forall>j. reads w \<le> j \<and> j < m \<longrightarrow> busy_cond req_sec lim (clock w j)"
    and ex: "\<not> busy_cond req_sec lim (clock w m)"
    by (auto simp: loop_last_read_def list_all_iff)
  define d where "d = m - reads w"
  have m: "m = reads w + d" using le by (simp add: d_def)
  have a: "\<forall>j<d. busy_cond req_sec lim (clock w (reads w + j))"
    using all by (simp add: m)
  have b: "\<not> busy_cond req_sec lim (clock w (reads w + d))"
    using ex by (simp add: m)
  show ?thesis
    using busy_loop_exit [OF a b] by (simp add: m clock_reads_def)
qed

lemma loop_last_read_exists:
  assumes "n \<le> k" and "\<not> busy_cond req_sec lim (clk k)"
  shows "\<exists>m. m \<le> k \<and> loop_last_read req_sec lim clk n m"
proof -
  define P where "P = (\<lambda>m. n \<le> m \<and> \<not> busy_cond req_sec lim (clk m))"
  define m where "m = (LEAST m. P m)"
  have Pk: "P k" using assms by (simp add: P_def)
  have Pm: "P m" unfolding m_def using Pk by (rule LeastI)
  have le: "m \<le> k" unfolding m_def using Pk by (rule Least_le)
  have "busy_cond req_sec lim (clk j)" if "n \<le> j" "j < m" for j
  proof (rule ccontr)
    assume "\<not> busy_cond req_sec lim (clk j)"
    with that have "P j" by (simp add: P_def)
    then have "m \<le> j" unfolding m_def by (rule Least_le)
    with that show False by simp
  qed
  with Pm have "loop_last_read req_sec lim clk n m"
    by (auto simp: loop_last_read_def P_def list_all_iff)
  with le show ?thesis by blast
qed

lemma hrtimer_callback_on_time:
  fixes s :: pps_gen_gpio and w :: world
  defines "deassert \<equiv> NSEC_PER_SEC - gpio_instr_time s"
  defines "assert \<equiv> NSEC_PER_SEC - gpio_instr_time s - uint (gpio_pulse_width_ns s)"
  defines "req \<equiv> KTIME_TO_TIMESPEC (timer_expires s)"
  defines "real \<equiv> clock w (reads w)"
  assumes sec: "tv_sec real = tv_sec req" and nsec: "tv_nsec real \<le> assert"
    and l1: "loop_last_read (tv_sec req) assert (clock w) (Suc (reads w)) m1"
    and l2: "loop_last_read (tv_sec req) deassert (clock w) (Suc m1) m2"
  shows "hrtimer_callback s w =
     Some (HRTIMER_RESTART,
       hrtimer_callback_done (long_bits w) assert req real
         (s\<lparr>gpio_instr_time :=
             (gpio_instr_time s
               + (TIMESPEC_TO_NS (clock w (Suc m2)) - TIMESPEC_TO_NS (clock w m2))) sdiv 2\<rparr>),
       w\<lparr>reads := Suc (Suc m2),
         trace := trace w @ [Local_irq_save, Clock_read real, Pr_info_gpio_event]
           @ clock_reads w (Suc (reads w)) (Suc m1) @ [Gpiod_set_value PPS_GPIO_HIGH]
           @ clock_reads w (Suc m1) (Suc m2)
           @ [Gpiod_set_value PPS_GPIO_LOW, Clock_read (clock w (Suc m2)), Local_irq_restore]\<rparr>)"
proof -
  define w1 where "w1 = w\<lparr>reads := Suc (reads w), trace := trace w @ [Local_irq_save, Clock_read real]\<rparr>"
  define wa where "wa = emit Pr_info_gpio_event w1"
  define w2 where "w2 = wa\<lparr>reads := Suc m1, trace := trace wa @ clock_reads w (Suc (reads w)) (Suc m1)\<rparr>"
  define wb where "wb = emit (Gpiod_set_value PPS_GPIO_HIGH) w2"
  define w3 where "w3 = wb\<lparr>reads := Suc m2, trace := trace wb @ clock_reads w (Suc m1) (Suc m2)\<rparr>"
  have g: "GETNSTIMEOFDAY (emit Local_irq_save w) = (real, w1)"
    by (simp add: real_def w1_def GETNSTIMEOFDAY_def emit_def)
  have wa: "clock wa = clock w" "reads wa = Suc (reads w)"
    by (simp_all add: wa_def w1_def)
  have b1: "busy_loop (tv_sec req) assert wa = Some (clock w m1, w2)"
    using busy_loop_last_read [of "tv_sec req" assert wa m1] l1
    by (simp add: wa w2_def clock_reads_def)
  have wb: "clock wb = clock w" "reads wb = Suc m1"
    by (simp_all add: wb_def w2_def wa)
  have b2: "busy_loop (tv_sec req) deassert wb = Some (clock w m2, w3)"
    using busy_loop_last_read [of "tv_sec req" deassert wb m2] l2
    by (simp add: wb w3_def clock_reads_def)
  have w3: "clock w3 = clock w" "reads w3 = Suc m2"
    by (simp_all add: w3_def wb)
  have a_eq: "deassert - uint (gpio_pulse_width_ns s) = assert"
    by (simp add: assert_def deassert_def)
  have cond1: "\<not> tv_sec real > tv_sec req" using sec by simp
  have cond2: "\<not> (tv_sec req \<noteq> tv_sec real \<or> tv_nsec real > assert)" using sec nsec by simp
  have "hrtimer_callback s w =
     Some (HRTIMER_RESTART,
       hrtimer_callback_done (long_bits w) assert req real
         (s\<lparr>gpio_instr_time :=
             (gpio_instr_time s
               + TIMESPEC_TO_NS (TIMESPEC_SUB (clock w (Suc m2)) (clock w m2))) sdiv 2\<rparr>),
       emit Local_irq_restore (snd (GETNSTIMEOFDAY (emit (Gpiod_set_value PPS_GPIO_LOW) w3))))"
    unfolding hrtimer_callback_def Let_def g split
    unfolding deassert_def [symmetric] a_eq req_def [symmetric] wa_def [symmetric]
    unfolding if_not_P [OF cond1] if_not_P [OF cond2] b1 option.case split wb_def [symmetric] b2
    by (simp add: case_prod_beta w3)
  also have "emit Local_irq_restore (snd (GETNSTIMEOFDAY (emit (Gpiod_set_value PPS_GPIO_LOW) w3)))
     = w\<lparr>reads := Suc (Suc m2),
         trace := trace w @ [Local_irq_save, Clock_read real, Pr_info_gpio_event]
           @ clock_reads w (Suc (reads w)) (Suc m1) @ [Gpiod_set_value PPS_GPIO_HIGH]
           @ clock_reads w (Suc m1) (Suc m2)
           @ [Gpiod_set_value PPS_GPIO_LOW, Clock_read (clock w (Suc m2)), Local_irq_restore]\<rparr>"
    by (simp add: GETNSTIMEOFDAY_def emit_def w3_def wb_def w2_def wa_def w1_def)
  finally show ?thesis by (simp add: TIMESPEC_TO_NS_SUB)
qed

lemma hrtimer_callback_done_eq:
  "hrtimer_callback_done bits a req real s =
     s\<lparr>hrtimer_avg_latency :=
          avg_latency_update bits (hrtimer_avg_latency s)
            (long_wrap bits (TIMESPEC_TO_NS real - TIMESPEC_TO_NS req)),
       timer_expires := ktime_set (tv_sec req + 1)
          (long_wrap bits
             (a - avg_latency_update bits (hrtimer_avg_latency s)
                    (long_wrap bits (TIMESPEC_TO_NS real - TIMESPEC_TO_NS req))
                - SAFETY_INTERVAL_NS))\<rparr>"
  by (simp add: hrtimer_callback_done_def Let_def TIMESPEC_TO_NS_SUB)

lemma long_wrap_id: "fits_long bits x \<Longrightarrow> long_wrap bits x = x"
proof -
  assume f: "fits_long bits x"
  then obtain n where n: "bits = Suc n" by (cases bits) (auto simp: fits_long_def)
  from f have "0 \<le> x + 2 ^ n" "x + 2 ^ n < 2 * 2 ^ n"
    by (simp_all add: fits_long_def n)
  then have "(x + 2 ^ n) mod (2 * 2 ^ n) = x + 2 ^ n"
    by (rule mod_pos_pos_trivial)
  then show ?thesis by (simp add: long_wrap_def n)
qed

lemma avg_latency_update_fits:
  "hrtimer_latency > avg \<or> fits_long bits (3 * avg + hrtimer_latency) \<Longrightarrow>
   avg_latency_update bits avg hrtimer_latency =
     (if hrtimer_latency > avg then hrtimer_latency else (3 * avg + hrtimer_latency) sdiv 4)"
  by (auto simp: avg_latency_update_def long_wrap_id)

lemma long_bits_simps [simp]:
  "long_bits (world_of xs after) = 64" "long_bits (emit e w) = long_bits w"
  by (simp_all add: world_of_def emit_def)

lemma example_req: "KTIME_TO_TIMESPEC (timer_expires example_state) = at_time 100 999949000"
  by (simp add: example_state_def KTIME_TO_TIMESPEC_def ktime_set_def NSEC_PER_SEC_def at_time_def)

lemma listed_clock_simps [simp]:
  "listed_clock (x # xs) after 0 = x"
  "listed_clock (x # xs) after (Suc n) = listed_clock xs after n"
  "listed_clock [] after n = after"
  by (simp_all add: listed_clock_def)

lemma width_cmp: "(uint (x :: 32 word) > 100000) = (\<not> unat x \<le> 100000)"
proof -
  have "uint x = int (unat x)" by simp
  then show ?thesis by linarith
qed

lemma busy_cond_other_second: "tv_sec ts \<noteq> req_sec \<Longrightarrow> \<not> busy_cond req_sec lim ts"
  by (auto simp: busy_cond_def)

lemma loop_last_read_leaves:
  assumes "\<forall>k\<ge>K. tv_sec (clk k) \<noteq> req_sec"
  shows "\<exists>m. m \<le> max n K \<and> loop_last_read req_sec lim clk n m"
proof -
  have "\<not> busy_cond req_sec lim (clk (max n K))"
    using assms by (simp add: busy_cond_other_second)
  then show ?thesis
    using loop_last_read_exists [of n "max n K" req_sec lim clk] by simp
qed

lemma busy_loop_Some_exit:
  assumes "busy_loop req_sec lim w = Some r"
  shows "\<exists>k\<ge>reads w. \<not> busy_cond req_sec lim (clock w k)"
proof (rule busy_loop.raw_induct
    [where P = "\<lambda>a b c y. \<exists>k\<ge>reads c. \<not> busy_cond a b (clock c k)", OF _ assms])
  fix bl :: "int \<Rightarrow> int \<Rightarrow> world \<Rightarrow> (timespec \<times> world) option"
    and a b :: int and c :: world and y :: "timespec \<times> world"
  assume IH: "\<And>a b c y. bl a b c = Some y \<Longrightarrow> \<exists>k\<ge>reads c. \<not> busy_cond a b (clock c k)"
    and eq: "(case GETNSTIMEOFDAY c of
               (ts1, w') \<Rightarrow> if busy_cond a b ts1 then bl a b w' else Some (ts1, w')) = Some y"
  show "\<exists>k\<ge>reads c. \<not> busy_cond a b (clock c k)"
  proof (cases "busy_cond a b (clock c (reads c))")
    case True
    with eq have "bl a b (snd (GETNSTIMEOFDAY c)) = Some y"
      by (simp add: GETNSTIMEOFDAY_def)
    from IH [OF this] obtain k where "Suc (reads c) \<le> k" "\<not> busy_cond a b (clock c k)"
      by auto
    then show ?thesis by (intro exI [of _ k]) simp
  next
    case False
    then show ?thesis by blast
  qed
qed

lemma busy_loop_None:
  assumes "\<forall>k\<ge>reads w. busy_cond req_sec lim (clock w k)"
  shows "busy_loop req_sec lim w = None"
proof (cases "busy_loop req_sec lim w")
  case (Some r)
  from busy_loop_Some_exit [OF this] assms show ?thesis by blast
qed simp

lemma late_cycle:
  fixes s :: pps_gen_gpio and w :: world
  defines "assert \<equiv> NSEC_PER_SEC - gpio_instr_time s - uint (gpio_pulse_width_ns s)"
  defines "req \<equiv> KTIME_TO_TIMESPEC (timer_expires s)"
  defines "real \<equiv> clock w (reads w)"
  assumes no_regression: "\<not> tv_sec real > tv_sec req"
    and late: "tv_sec req \<noteq> tv_sec real \<or> tv_nsec real > assert"
  shows "hrtimer_callback s w =
     Some (HRTIMER_RESTART, hrtimer_callback_done (long_bits w) assert req real s,
           w\<lparr>reads := Suc (reads w),
             trace := trace w @ [Local_irq_save, Clock_read real, Local_irq_restore,
                                 Pr_err_late req real]\<rparr>)"
proof -
  define w1 where "w1 = w\<lparr>reads := Suc (reads w), trace := trace w @ [Local_irq_save, Clock_read real]\<rparr>"
  have g: "GETNSTIMEOFDAY (emit Local_irq_save w) = (real, w1)"
    by (simp add: real_def w1_def GETNSTIMEOFDAY_def emit_def)
  have "hrtimer_callback s w =
     Some (HRTIMER_RESTART, hrtimer_callback_done (long_bits w) assert req real s,
           emit (Pr_err_late req real) (emit Local_irq_restore w1))"
    unfolding hrtimer_callback_def Let_def g split
    unfolding assert_def [symmetric] req_def [symmetric]
    unfolding if_not_P [OF no_regression] if_P [OF late] ..
  then show ?thesis
    by (simp add: emit_def w1_def)
qed

lemma at_time_sel [simp]: "tv_sec (at_time a b) = a" "tv_nsec (at_time a b) = b"
  by (simp_all add: at_time_def)

lemma on_time_world_simps [simp]:
  "clock on_time_world =
     listed_clock [at_time 100 999950000, at_time 100 999960000, at_time 100 999969000,
               at_time 100 999980000, at_time 100 999999000, at_time 100 999999800]
       (at_time 101 0)"
  "reads on_time_world = 0" "trace on_time_world = []"
  by (simp_all add: on_time_world_def world_of_def)

lemma example_state_simps [simp]:
  "gpio_pulse_width_ns example_state = 30000" "hrtimer_avg_latency example_state = 10000"
  "gpio_instr_time example_state = 1000"
  by (simp_all add: example_state_def)

lemma example_thresholds:
  "NSEC_PER_SEC - gpio_instr_time example_state - uint (gpio_pulse_width_ns example_state)
     = 999969000"
  "NSEC_PER_SEC - gpio_instr_time example_state = 999999000"
  "tv_sec (KTIME_TO_TIMESPEC (timer_expires example_state)) = 100"
  by (simp_all add: NSEC_PER_SEC_def example_req at_time_def)

lemma on_time_example:
  "hrtimer_callback example_state on_time_world =
     Some (HRTIMER_RESTART,
           example_state\<lparr>hrtimer_avg_latency := 7750, gpio_instr_time := 900,
             timer_expires := ktime_set 101 999951250\<rparr>,
           on_time_world\<lparr>reads := 6,
             trace := [Local_irq_save, Clock_read (at_time 100 999950000), Pr_info_gpio_event,
                       Clock_read (at_time 100 999960000), Clock_read (at_time 100 999969000),
                       Gpiod_set_value PPS_GPIO_HIGH,
                       Clock_read (at_time 100 999980000), Clock_read (at_time 100 999999000),
                       Gpiod_set_value PPS_GPIO_LOW,
                       Clock_read (at_time 100 999999800), Local_irq_restore]\<rparr>)"
proof -
  have a: "tv_sec (clock on_time_world (reads on_time_world))
             = tv_sec (KTIME_TO_TIMESPEC (timer_expires example_state))"
    by (simp add: example_req at_time_def)
  have b: "tv_nsec (clock on_time_world (reads on_time_world))
             \<le> NSEC_PER_SEC - gpio_instr_time example_state
                 - uint (gpio_pulse_width_ns example_state)"
    unfolding example_thresholds by (simp add: at_time_def)
  have c: "loop_last_read (tv_sec (KTIME_TO_TIMESPEC (timer_expires example_state)))
             (NSEC_PER_SEC - gpio_instr_time example_state
                 - uint (gpio_pulse_width_ns example_state))
             (clock on_time_world) (Suc (reads on_time_world)) (Suc (Suc 0))"
    unfolding example_thresholds
    by (simp add: loop_last_read_def at_time_def busy_cond_def)
  have d: "loop_last_read (tv_sec (KTIME_TO_TIMESPEC (timer_expires example_state)))
             (NSEC_PER_SEC - gpio_instr_time example_state)
             (clock on_time_world) (Suc (Suc (Suc 0))) (Suc (Suc (Suc (Suc 0))))"
    unfolding example_thresholds
    by (simp add: loop_last_read_def at_time_def busy_cond_def)
  show ?thesis
    apply (simp only: hrtimer_callback_on_time [OF a b c d] hrtimer_callback_done_eq
        example_thresholds)
    apply (simp add: example_req clock_reads_def)
    apply (simp add: example_state_def at_time_def
        TIMESPEC_TO_NS_def NSEC_PER_SEC_def NSEC_PER_USEC_def SAFETY_INTERVAL_NS_def
        avg_latency_update_def signed_divide_int_def ktime_set_def on_time_world_def world_of_def
        long_wrap_def)
    done
qed


lemma hrtimer_callback_returns:
  fixes s :: pps_gen_gpio and w :: world
  defines "assert \<equiv> NSEC_PER_SEC - gpio_instr_time s - uint (gpio_pulse_width_ns s)"
  defines "req \<equiv> KTIME_TO_TIMESPEC (timer_expires s)"
  defines "real \<equiv> clock w (reads w)"
  assumes no_regression: "\<not> tv_sec real > tv_sec req"
    and leaves: "\<forall>k\<ge>K. tv_sec (clock w k) \<noteq> tv_sec req"
  shows "\<exists>s1 w'. hrtimer_callback s w
            = Some (HRTIMER_RESTART, hrtimer_callback_done (long_bits w) assert req real s1, w')
          \<and> hrtimer_avg_latency s1 = hrtimer_avg_latency s"
proof (cases "tv_sec req \<noteq> tv_sec real \<or> tv_nsec real > assert")
  case True
  show ?thesis
    using late_cycle [where s = s and w = w] no_regression True
    unfolding assert_def req_def real_def by blast
next
  case False
  define deassert where "deassert = NSEC_PER_SEC - gpio_instr_time s"
  from loop_last_read_leaves [OF leaves, of "Suc (reads w)" assert]
  obtain m1 where m1: "loop_last_read (tv_sec req) assert (clock w) (Suc (reads w)) m1"
    by blast
  from loop_last_read_leaves [OF leaves, of "Suc m1" deassert]
  obtain m2 where m2: "loop_last_read (tv_sec req) deassert (clock w) (Suc m1) m2"
    by blast
  from False have a: "tv_sec real = tv_sec req" and b: "tv_nsec real \<le> assert"
    by auto
  let ?s1 = "s\<lparr>gpio_instr_time :=
             (gpio_instr_time s
               + (TIMESPEC_TO_NS (clock w (Suc m2)) - TIMESPEC_TO_NS (clock w m2))) sdiv 2\<rparr>"
  have "\<exists>w'. hrtimer_callback s w
            = Some (HRTIMER_RESTART, hrtimer_callback_done (long_bits w) assert req real ?s1, w')"
    using hrtimer_callback_on_time [of w s m1 m2] a b m1 m2
    unfolding assert_def req_def real_def deassert_def by blast
  then show ?thesis
    by (intro exI [of _ ?s1]) simp
qed

lemma hrtimer_callback_result:
  fixes s :: pps_gen_gpio and w :: world
  defines "assert \<equiv> NSEC_PER_SEC - gpio_instr_time s - uint (gpio_pulse_width_ns s)"
  defines "req \<equiv> KTIME_TO_TIMESPEC (timer_expires s)"
  defines "real \<equiv> clock w (reads w)"
  assumes no_regression: "\<not> tv_sec real > tv_sec req"
    and returns: "hrtimer_callback s w = Some r"
  shows "\<exists>s1 w'. r = (HRTIMER_RESTART, hrtimer_callback_done (long_bits w) assert req real s1, w')
          \<and> hrtimer_avg_latency s1 = hrtimer_avg_latency s"
proof -
  define w1 where "w1 = w\<lparr>reads := Suc (reads w), trace := trace w @ [Local_irq_save, Clock_read real]\<rparr>"
  have g: "GETNSTIMEOFDAY (emit Local_irq_save w) = (real, w1)"
    by (simp add: real_def w1_def GETNSTIMEOFDAY_def emit_def)
  have a_eq: "NSEC_PER_SEC - gpio_instr_time s - uint (gpio_pulse_width_ns s) = assert"
    by (simp add: assert_def)
  from returns no_regression show ?thesis
    unfolding hrtimer_callback_def Let_def g split a_eq req_def [symmetric]
    by (auto split: if_splits option.splits prod.splits
        intro: exI [of _ s] exI [of _ "s\<lparr>gpio_instr_time := x\<rparr>" for x])
qed

lemma hrtimer_callback_ends:
  fixes s :: pps_gen_gpio and w :: world
  defines "assert \<equiv> NSEC_PER_SEC - gpio_instr_time s - uint (gpio_pulse_width_ns s)"
  defines "req \<equiv> KTIME_TO_TIMESPEC (timer_expires s)"
  defines "real \<equiv> clock w (reads w)"
  assumes "tv_sec real > tv_sec req \<or> tv_sec req \<noteq> tv_sec real \<or> tv_nsec real > assert
           \<or> (\<exists>K. \<forall>k\<ge>K. tv_sec (clock w k) \<noteq> tv_sec req)"
  shows "hrtimer_callback s w \<noteq> None"
proof (cases "tv_sec real > tv_sec req")
  case True
  then show ?thesis
    by (simp add: hrtimer_callback_def Let_def req_def real_def case_prod_beta)
next
  case no_regression: False
  show ?thesis
  proof (cases "tv_sec req \<noteq> tv_sec real \<or> tv_nsec real > assert")
    case True
    from late_cycle [where s = s and w = w] no_regression True
    show ?thesis unfolding assert_def req_def real_def by simp
  next
    case False
    with assms(4) no_regression obtain K where "\<forall>k\<ge>K. tv_sec (clock w k) \<noteq> tv_sec req"
      by blast
    from hrtimer_callback_returns [where s = s and w = w and K = K] no_regression this
    show ?thesis unfolding req_def real_def by auto
  qed
qed

lemma on_time_world_leaves:
  "\<forall>k\<ge>6. tv_sec (clock on_time_world k)
            \<noteq> tv_sec (KTIME_TO_TIMESPEC (timer_expires example_state))"
  by (simp add: example_thresholds listed_clock_def at_time_def)

lemma stuck_world_simps [simp]:
  "clock stuck_world =
     listed_clock [at_time 100 999950000, at_time 100 999950100, at_time 100 999950200]
       (at_time 101 0)"
  "reads stuck_world = 0" "trace stuck_world = []"
  by (simp_all add: stuck_world_def world_of_def)


lemma calibrate_shift:
  fixes w :: world
  defines "w3 \<equiv> w\<lparr>reads := Suc (Suc (reads w)), trace := trace w @ calibrate_step_trace w 0\<rparr>"
  shows "toggle_duration w3 j = toggle_duration w (Suc j)"
    and "calibrate_step_trace w3 j = calibrate_step_trace w (Suc j)"
  by (simp_all add: w3_def toggle_duration_def calibrate_step_trace_def)

lemma pps_gen_calibrate_loop_step:
  assumes "i < PPS_GEN_CALIBRATE_LOOPS"
  shows "pps_gen_calibrate_loop i time_acc w =
           pps_gen_calibrate_loop (Suc i) (time_acc + toggle_duration w 0)
             (w\<lparr>reads := Suc (Suc (reads w)), trace := trace w @ calibrate_step_trace w 0\<rparr>)"
  using assms
  by (subst pps_gen_calibrate_loop.simps)
     (simp add: GETNSTIMEOFDAY_def emit_def Let_def TIMESPEC_TO_NS_SUB toggle_duration_def
        calibrate_step_trace_def)

lemma pps_gen_calibrate_loop_run:
  "i + n = PPS_GEN_CALIBRATE_LOOPS \<Longrightarrow>
   pps_gen_calibrate_loop i time_acc w =
     (time_acc + (\<Sum>j<n. toggle_duration w j),
      w\<lparr>reads := reads w + 2 * n,
        trace := trace w @ concat (map (calibrate_step_trace w) [0..<n])\<rparr>)"
proof (induction n arbitrary: i time_acc w)
  case 0
  then show ?case by (subst pps_gen_calibrate_loop.simps) simp
next
  case (Suc n)
  let ?w3 = "w\<lparr>reads := Suc (Suc (reads w)), trace := trace w @ calibrate_step_trace w 0\<rparr>"
  from Suc.prems have lt: "i < PPS_GEN_CALIBRATE_LOOPS" and eq: "Suc i + n = PPS_GEN_CALIBRATE_LOOPS"
    by simp_all
  have l: "[0..<Suc n] = 0 # map Suc [0..<n]"
    by (simp add: upt_conv_Cons map_Suc_upt del: upt_Suc)
  have s: "(\<Sum>j<Suc n. toggle_duration w j)
             = toggle_duration w 0 + (\<Sum>j<n. toggle_duration w (Suc j))"
    by (rule sum.lessThan_Suc_shift)
  show ?case
    unfolding pps_gen_calibrate_loop_step [OF lt] Suc.IH [OF eq] calibrate_shift l s
    by (simp add: comp_def del: upt_Suc)
qed

lemma pps_gen_calibrate_run:
  "pps_gen_calibrate s w =
     (s\<lparr>gpio_instr_time := (\<Sum>i<100. toggle_duration w i) sdiv 100\<rparr>,
      w\<lparr>reads := reads w + 200,
        trace := trace w @ concat (map (calibrate_step_trace w) [0..<100])
                 @ [Pr_info_calibrated ((\<Sum>i<100. toggle_duration w i) sdiv 100)]\<rparr>)"
proof -
  define sm where "sm = (\<Sum>i<100. toggle_duration w i)"
  define tr where "tr = concat (map (calibrate_step_trace w) [0..<100])"
  have "pps_gen_calibrate_loop 0 0 w
          = (0 + sm, w\<lparr>reads := reads w + 2 * 100, trace := trace w @ tr\<rparr>)"
    unfolding sm_def tr_def
    by (rule pps_gen_calibrate_loop_run) (simp add: PPS_GEN_CALIBRATE_LOOPS_def)
  then have r: "pps_gen_calibrate_loop 0 0 w
          = (sm, w\<lparr>reads := reads w + 200, trace := trace w @ tr\<rparr>)"
    by simp
  show ?thesis
    unfolding sm_def [symmetric] tr_def [symmetric] pps_gen_calibrate_def r
    by (simp add: emit_def PPS_GEN_CALIBRATE_LOOPS_def)
qed


lemma ticking_world_duration:
  "toggle_duration ticking_world i = 400 + (if i = 99 then 50 else 0)"
proof -
  have "2 * i \<noteq> 199" by presburger
  moreover have "(2 * i + 1 = 199) = (i = 99)" by presburger
  ultimately show ?thesis
    by (simp add: toggle_duration_def ticking_world_def TIMESPEC_TO_NS_def at_time_def)
qed

lemma ticking_world_sum: "(\<Sum>i<100. toggle_duration ticking_world i) = 40050"
  unfolding ticking_world_duration by (simp add: sum.distrib)


lemma line_level_calibrate_step [simp]:
  "line_level (calibrate_step_trace w i) l = Some PPS_GPIO_LOW"
  by (simp add: calibrate_step_trace_def)


lemma toggle_duration_cong:
  "clock w' = clock w \<Longrightarrow> reads w' = reads w \<Longrightarrow> toggle_duration w' = toggle_duration w"
  by (simp add: toggle_duration_def fun_eq_iff)

lemma calibrate_step_trace_cong:
  "clock w' = clock w \<Longrightarrow> reads w' = reads w \<Longrightarrow> calibrate_step_trace w' = calibrate_step_trace w"
  by (simp add: calibrate_step_trace_def fun_eq_iff)

lemma pps_gen_gpio_probe_run:
  fixes env :: probe_env and s :: pps_gen_gpio and w :: world
  defines "instr \<equiv> (\<Sum>i<100. toggle_duration w i) sdiv 100"
  defines "now \<equiv> clock w (reads w + 200)"
  defines "kt \<equiv> ktime_set (tv_sec now + 1)
                   (NSEC_PER_SEC - uint (gpio_pulse_width_ns s) - instr - 3 * SAFETY_INTERVAL_NS)"
  assumes "kzalloc_ok env" and "gpio_named_count env = 1" and "gpiod_get_err env = None"
    and "\<not> direction_output_ret env < 0"
  shows "pps_gen_gpio_probe env s w =
     (0, s\<lparr>gpio_instr_time := instr, timer_expires := kt\<rparr>,
      w\<lparr>reads := reads w + 201,
        trace := trace w
          @ [Pr_info_probe, Devm_gpiod_get_out_low True,
             Gpiod_direction_output PPS_GPIO_HIGH (direction_output_ret env)]
          @ concat (map (calibrate_step_trace w) [0..<100])
          @ [Pr_info_calibrated instr, Hrtimer_init, Clock_read now, Hrtimer_start kt]\<rparr>)"
proof -
  define w2 where "w2 = w\<lparr>trace := trace w
          @ [Pr_info_probe, Devm_gpiod_get_out_low True,
             Gpiod_direction_output PPS_GPIO_HIGH (direction_output_ret env)]\<rparr>"
  define tr where "tr = concat (map (calibrate_step_trace w) [0..<100])"
  have w2: "clock w2 = clock w" "reads w2 = reads w"
    by (simp_all add: w2_def)
  have e: "emit (Gpiod_direction_output PPS_GPIO_HIGH (direction_output_ret env))
             (emit (Devm_gpiod_get_out_low True) (emit Pr_info_probe w)) = w2"
    by (simp add: w2_def emit_def)
  have c: "pps_gen_calibrate (s\<lparr>gpio_instr_time := 0, timer_expires := 0\<rparr>) w2 =
     (s\<lparr>gpio_instr_time := instr, timer_expires := 0\<rparr>,
      w2\<lparr>reads := reads w + 200, trace := trace w2 @ tr @ [Pr_info_calibrated instr]\<rparr>)"
    unfolding pps_gen_calibrate_run toggle_duration_cong [OF w2] calibrate_step_trace_cong [OF w2]
      instr_def [symmetric] tr_def [symmetric]
    by (simp add: w2)
  show ?thesis
    unfolding pps_gen_gpio_probe_def Let_def tr_def [symmetric]
    using assms(4-7)
    apply (simp only: if_False if_True not_not option.case e c split simp_thms)
    apply (simp add: pps_gen_first_timer_event_def GETNSTIMEOFDAY_def emit_def Let_def
        kt_def now_def w2_def)
    done
qed

lemma ticking_world_sel [simp]:
  "reads ticking_world = 0" "trace ticking_world = []"
  "clock ticking_world n = at_time 50 (400 * int n + (if n = 199 then 50 else 0))"
  by (simp_all add: ticking_world_def)

lemma good_env_ok:
  "kzalloc_ok good_env" "gpio_named_count good_env = 1" "gpiod_get_err good_env = None"
  "\<not> direction_output_ret good_env < 0"
  by (simp_all add: good_env_def)

lemma world_long_bits [simp]:
  "long_bits on_time_world = 64" "long_bits stuck_world = 64" "long_bits regression_world = 64"
  "long_bits ticking_world = 64"
  by (simp_all add: on_time_world_def stuck_world_def regression_world_def ticking_world_def)


lemma probe_last_call:
  "last (trace (snd (snd (pps_gen_gpio_probe good_env example_state ticking_world))))
     = Hrtimer_start (ktime_set 51 999939600)"
proof -
  define tr where "tr = concat (map (calibrate_step_trace ticking_world) [0..<100])"
  show ?thesis
    unfolding pps_gen_gpio_probe_run [OF good_env_ok] ticking_world_sum tr_def [symmetric]
    by (simp add: signed_divide_int_def NSEC_PER_SEC_def SAFETY_INTERVAL_NS_def
        NSEC_PER_USEC_def)
qed

lemma fits_long_mono: "fits_long bits y \<Longrightarrow> 0 \<le> x \<Longrightarrow> x \<le> y \<Longrightarrow> fits_long bits x"
proof -
  assume f: "fits_long bits y" and x: "0 \<le> x" "x \<le> y"
  have "- (2 ^ (bits - 1)) \<le> (0::int)" by simp
  with f x show ?thesis by (simp add: fits_long_def)
qed


lemma late_world_simps [simp]:
  "clock late_world = listed_clock [at_time 100 999970000] (at_time 101 0)"
  "reads late_world = 0" "trace late_world = []" "long_bits late_world = 64"
  by (simp_all add: late_world_def world_of_def)

lemma backward_world32_simps [simp]:
  "clock backward_world32 = listed_clock [at_time 97 999949000] (at_time 101 0)"
  "reads backward_world32 = 0" "trace backward_world32 = []" "long_bits backward_world32 = 32"
  by (simp_all add: backward_world32_def world_of_def)

lemma huge_avg_state_simps [simp]:
  "gpio_pulse_width_ns huge_avg_state = 30000"
  "hrtimer_avg_latency huge_avg_state = 4000000000000000000"
  "gpio_instr_time huge_avg_state = 1000"
  "timer_expires huge_avg_state = timer_expires example_state"
  by (simp_all add: huge_avg_state_def example_state_def)

lemma TIMESPEC_TO_NS_at_time [simp]: "TIMESPEC_TO_NS (at_time a b) = a * 1000000000 + b"
  by (simp add: TIMESPEC_TO_NS_def NSEC_PER_SEC_def)

lemma backward_example:
  "hrtimer_callback example_state backward_world32 =
     Some (HRTIMER_RESTART,
           hrtimer_callback_done 32 999969000 (at_time 100 999949000) (at_time 97 999949000)
             example_state,
           backward_world32\<lparr>reads := 1,
             trace := [Local_irq_save, Clock_read (at_time 97 999949000), Local_irq_restore,
                       Pr_err_late (at_time 100 999949000) (at_time 97 999949000)]\<rparr>)"
proof -
  have a: "\<not> tv_sec (clock backward_world32 (reads backward_world32))
             > tv_sec (KTIME_TO_TIMESPEC (timer_expires example_state))"
    by (simp add: example_req)
  have b: "tv_sec (KTIME_TO_TIMESPEC (timer_expires example_state))
             \<noteq> tv_sec (clock backward_world32 (reads backward_world32))
           \<or> tv_nsec (clock backward_world32 (reads backward_world32))
             > NSEC_PER_SEC - gpio_instr_time example_state
                 - uint (gpio_pulse_width_ns example_state)"
    by (simp add: example_req)
  show ?thesis
    unfolding late_cycle [OF a b] example_thresholds
    by (simp add: example_req)
qed

lemma huge_avg_example:
  "hrtimer_callback huge_avg_state late_world =
     Some (HRTIMER_RESTART,
           hrtimer_callback_done 64 999969000 (at_time 100 999949000) (at_time 100 999970000)
             huge_avg_state,
           late_world\<lparr>reads := 1,
             trace := [Local_irq_save, Clock_read (at_time 100 999970000), Local_irq_restore,
                       Pr_err_late (at_time 100 999949000) (at_time 100 999970000)]\<rparr>)"
proof -
  have t: "NSEC_PER_SEC - gpio_instr_time huge_avg_state
             - uint (gpio_pulse_width_ns huge_avg_state) = 999969000"
    by (simp add: NSEC_PER_SEC_def)
  have a: "\<not> tv_sec (clock late_world (reads late_world))
             > tv_sec (KTIME_TO_TIMESPEC (timer_expires huge_avg_state))"
    by (simp add: example_req)
  have b: "tv_sec (KTIME_TO_TIMESPEC (timer_expires huge_avg_state))
             \<noteq> tv_sec (clock late_world (reads late_world))
           \<or> tv_nsec (clock late_world (reads late_world))
             > NSEC_PER_SEC - gpio_instr_time huge_avg_state
                 - uint (gpio_pulse_width_ns huge_avg_state)"
    unfolding t by (simp add: example_req)
  show ?thesis
    unfolding late_cycle [OF a b] t
    by (simp add: example_req)
qed

lemma done_backward_avg:
  "hrtimer_avg_latency
     (hrtimer_callback_done 32 999969000 (at_time 100 999949000) (at_time 97 999949000)
        example_state) = 1294967296"
  by (simp add: hrtimer_callback_done_eq avg_latency_update_def long_wrap_def)

lemma done_huge_avg:
  "hrtimer_avg_latency
     (hrtimer_callback_done 64 999969000 (at_time 100 999949000) (at_time 100 999970000)
        huge_avg_state) = - 1611686018427382654"
  by (simp add: hrtimer_callback_done_eq avg_latency_update_def long_wrap_def
      signed_divide_int_def)

section \<open>The claims\<close>

subsection \<open>C1: an on-time cycle\<close>




subsection \<open>C2: the next deadline\<close>

text \<open>
  C2, as amended.  A cycle that passes the clock-regression check ends if it is late, or
  if the clock's second differs from the requested second from some read on.  Every such
  cycle that ends returns \<^verbatim>\<open>HRTIMER_RESTART\<close> with the average latency updated from the
  sample narrowed to a \<^verbatim>\<open>long\<close>, and, whenever the nanoseconds
  1000000000 - pulse_width - instr_time - avg_latency - safety_interval fit a \<^verbatim>\<open>long\<close>,
  with the timer set for the requested second plus one at these nanoseconds, where
  avg_latency is the average as updated by this cycle and instr_time is the port write
  time at the entry of the cycle: the assert time is computed once, before the update.
\<close>

theorem hrtimer_callback_rearm:
  fixes s :: pps_gen_gpio and w :: world
  defines "assert \<equiv> NSEC_PER_SEC - gpio_instr_time s - uint (gpio_pulse_width_ns s)"
  defines "req \<equiv> KTIME_TO_TIMESPEC (timer_expires s)"
  defines "real \<equiv> clock w (reads w)"
  assumes no_regression: "\<not> tv_sec real > tv_sec req"
  shows "(tv_sec req \<noteq> tv_sec real \<or> tv_nsec real > assert
            \<or> (\<exists>K. \<forall>k\<ge>K. tv_sec (clock w k) \<noteq> tv_sec req)
          \<longrightarrow> hrtimer_callback s w \<noteq> None)
       \<and> (\<forall>r. hrtimer_callback s w = Some r \<longrightarrow>
            (\<exists>s' w'. r = (HRTIMER_RESTART, s', w')
               \<and> hrtimer_avg_latency s'
                   = avg_latency_update (long_bits w) (hrtimer_avg_latency s)
                       (long_wrap (long_bits w) (TIMESPEC_TO_NS real - TIMESPEC_TO_NS req))
               \<and> (fits_long (long_bits w)
                     (NSEC_PER_SEC - uint (gpio_pulse_width_ns s) - gpio_instr_time s
                        - hrtimer_avg_latency s' - SAFETY_INTERVAL_NS)
                   \<longrightarrow> timer_expires s'
                        = ktime_set (tv_sec req + 1)
                            (NSEC_PER_SEC - uint (gpio_pulse_width_ns s) - gpio_instr_time s
                               - hrtimer_avg_latency s' - SAFETY_INTERVAL_NS))))"
proof (intro conjI allI impI)
  assume "tv_sec req \<noteq> tv_sec real \<or> tv_nsec real > assert
            \<or> (\<exists>K. \<forall>k\<ge>K. tv_sec (clock w k) \<noteq> tv_sec req)"
  then show "hrtimer_callback s w \<noteq> None"
    using hrtimer_callback_ends [where s = s and w = w]
    unfolding assert_def req_def real_def by blast
next
  fix r
  assume "hrtimer_callback s w = Some r"
  from hrtimer_callback_result [where s = s and w = w, OF _ this] no_regression
  obtain s1 w' where r: "r = (HRTIMER_RESTART,
                              hrtimer_callback_done (long_bits w) assert req real s1, w')"
    and avg: "hrtimer_avg_latency s1 = hrtimer_avg_latency s"
    unfolding assert_def req_def real_def by blast
  define avg' where "avg' = avg_latency_update (long_bits w) (hrtimer_avg_latency s)
                       (long_wrap (long_bits w) (TIMESPEC_TO_NS real - TIMESPEC_TO_NS req))"
  define off where "off = NSEC_PER_SEC - uint (gpio_pulse_width_ns s) - gpio_instr_time s
                            - avg' - SAFETY_INTERVAL_NS"
  let ?s' = "hrtimer_callback_done (long_bits w) assert req real s1"
  have e: "assert - avg' - SAFETY_INTERVAL_NS = off"
    by (simp add: assert_def off_def)
  have A: "hrtimer_avg_latency ?s' = avg'"
    unfolding hrtimer_callback_done_eq avg avg'_def by simp
  have B: "timer_expires ?s' = ktime_set (tv_sec req + 1) off" if "fits_long (long_bits w) off"
    unfolding hrtimer_callback_done_eq avg avg'_def [symmetric] e
    using that by (simp add: long_wrap_id)
  have "r = (HRTIMER_RESTART, ?s', w')
          \<and> hrtimer_avg_latency ?s' = avg'
          \<and> (fits_long (long_bits w)
                (NSEC_PER_SEC - uint (gpio_pulse_width_ns s) - gpio_instr_time s
                   - hrtimer_avg_latency ?s' - SAFETY_INTERVAL_NS)
              \<longrightarrow> timer_expires ?s'
                   = ktime_set (tv_sec req + 1)
                       (NSEC_PER_SEC - uint (gpio_pulse_width_ns s) - gpio_instr_time s
                          - hrtimer_avg_latency ?s' - SAFETY_INTERVAL_NS))"
    unfolding A off_def [symmetric] using r B by simp
  then show "\<exists>s' w'. r = (HRTIMER_RESTART, s', w')
               \<and> hrtimer_avg_latency s'
                   = avg_latency_update (long_bits w) (hrtimer_avg_latency s)
                       (long_wrap (long_bits w) (TIMESPEC_TO_NS real - TIMESPEC_TO_NS req))
               \<and> (fits_long (long_bits w)
                     (NSEC_PER_SEC - uint (gpio_pulse_width_ns s) - gpio_instr_time s
                        - hrtimer_avg_latency s' - SAFETY_INTERVAL_NS)
                   \<longrightarrow> timer_expires s'
                        = ktime_set (tv_sec req + 1)
                            (NSEC_PER_SEC - uint (gpio_pulse_width_ns s) - gpio_instr_time s
                               - hrtimer_avg_latency s' - SAFETY_INTERVAL_NS))"
    unfolding avg'_def by blast
qed

theorem hrtimer_callback_rearm_witness:
  "\<exists>s' w'. hrtimer_callback example_state on_time_world = Some (HRTIMER_RESTART, s', w')
     \<and> hrtimer_avg_latency s' = 7750
     \<and> timer_expires s' = ktime_set 101 999951250"
proof -
  have a: "\<not> tv_sec (clock on_time_world (reads on_time_world))
             > tv_sec (KTIME_TO_TIMESPEC (timer_expires example_state))"
    by (simp add: example_thresholds)
  have e: "avg_latency_update 64 10000 (long_wrap 64 1000) = 7750"
    by (simp add: avg_latency_update_def signed_divide_int_def long_wrap_def)
  have f: "fits_long 64 (1000000000 - 30000 - 1000 - 7750 - 10000)"
    by (simp add: fits_long_def)
  note t = hrtimer_callback_rearm [OF a]
  from t [THEN conjunct1] on_time_world_leaves
  obtain r where r: "hrtimer_callback example_state on_time_world = Some r"
    by blast
  from t [THEN conjunct2, rule_format, OF r] f show ?thesis
    unfolding r
    by (auto simp add: example_thresholds example_req e NSEC_PER_SEC_def SAFETY_INTERVAL_NS_def
        NSEC_PER_USEC_def)
qed

text \<open>
  C2 as stated takes the port write time as updated by the same cycle.  In the example the
  cycle changes it from 1000 to 900 and the average latency to 7750; the claim gives the
  nanoseconds 999951350, the code sets 999951250.
\<close>

theorem rearm_updated_instr_time_counterexample:
  "map_option (timer_expires \<circ> fst \<circ> snd) (hrtimer_callback example_state on_time_world)
     = Some (ktime_set 101 999951250)
   \<and> map_option (gpio_instr_time \<circ> fst \<circ> snd) (hrtimer_callback example_state on_time_world)
     = Some 900
   \<and> map_option (hrtimer_avg_latency \<circ> fst \<circ> snd) (hrtimer_callback example_state on_time_world)
     = Some 7750
   \<and> ktime_set (100 + 1) (NSEC_PER_SEC - uint (gpio_pulse_width_ns example_state) - 900 - 7750
                            - SAFETY_INTERVAL_NS)
     = ktime_set 101 999951350
   \<and> ktime_set 101 999951250 \<noteq> ktime_set 101 999951350"
  unfolding on_time_example
  by (simp add: ktime_set_def NSEC_PER_SEC_def SAFETY_INTERVAL_NS_def NSEC_PER_USEC_def)

subsection \<open>C3: the latency tracker\<close>

text \<open>
  C3, as amended.  The latency sample of a cycle is the actual wake time less the
  requested one, in nanoseconds, narrowed to a \<^verbatim>\<open>long\<close>.  The average becomes the sample
  if the sample exceeds the average, and (3 * avg + sample) / 4 otherwise, the sum computed
  in \<^verbatim>\<open>long\<close> and the division that of C.  For every sample that fits a \<^verbatim>\<open>long\<close>, and
  every average for which 3 * avg + sample fits a \<^verbatim>\<open>long\<close> when it is computed, this is
  the rule with the mathematical values.  On every platform whose \<^verbatim>\<open>long\<close> holds 68000,
  the samples 5000, 20000, 8000 take the average 10000 to 8750, 20000, 17000.
\<close>

theorem latency_tracker_update:
  fixes s :: pps_gen_gpio and req real :: timespec and bits :: nat and a :: int
  defines "sample \<equiv> TIMESPEC_TO_NS real - TIMESPEC_TO_NS req"
  defines "avg \<equiv> hrtimer_avg_latency s"
  shows "(fits_long bits sample \<and> (sample > avg \<or> fits_long bits (3 * avg + sample)) \<longrightarrow>
            hrtimer_avg_latency (hrtimer_callback_done bits a req real s) =
              (if sample > avg then sample else (3 * avg + sample) sdiv 4))
         \<and> (fits_long bits 68000 \<longrightarrow>
              avg_latency_run bits 10000 [5000, 20000, 8000] = [8750, 20000, 17000])"
proof (intro conjI impI)
  assume "fits_long bits sample \<and> (sample > avg \<or> fits_long bits (3 * avg + sample))"
  then show "hrtimer_avg_latency (hrtimer_callback_done bits a req real s) =
              (if sample > avg then sample else (3 * avg + sample) sdiv 4)"
    unfolding hrtimer_callback_done_eq sample_def avg_def
    by (simp add: long_wrap_id avg_latency_update_fits)
next
  assume f: "fits_long bits 68000"
  then have "fits_long bits 35000"
    by (rule fits_long_mono) simp_all
  with f show "avg_latency_run bits 10000 [5000, 20000, 8000] = [8750, 20000, 17000]"
    by (simp add: avg_latency_update_def long_wrap_id signed_divide_int_def)
qed

theorem latency_tracker_update_witness:
  "hrtimer_avg_latency
     (hrtimer_callback_done 32 999969000 (at_time 100 999949000) (at_time 100 999950000)
        example_state) = 7750
   \<and> avg_latency_run 32 10000 [5000, 20000, 8000] = [8750, 20000, 17000]"
proof -
  have f: "fits_long 32 (TIMESPEC_TO_NS (at_time 100 999950000)
                          - TIMESPEC_TO_NS (at_time 100 999949000))
           \<and> (TIMESPEC_TO_NS (at_time 100 999950000) - TIMESPEC_TO_NS (at_time 100 999949000)
                > hrtimer_avg_latency example_state
              \<or> fits_long 32 (3 * hrtimer_avg_latency example_state
                  + (TIMESPEC_TO_NS (at_time 100 999950000)
                      - TIMESPEC_TO_NS (at_time 100 999949000))))"
    by (simp add: fits_long_def)
  have g: "fits_long 32 68000" by (simp add: fits_long_def)
  note t = latency_tracker_update [of 32 "at_time 100 999950000" "at_time 100 999949000"
      example_state 999969000]
  from t [THEN conjunct1, rule_format, OF f] t [THEN conjunct2, rule_format, OF g]
  show ?thesis by (auto simp add: signed_divide_int_def)
qed

text \<open>
  C3 as stated gives the rule for every sample.  On a 32-bit platform, a wake three seconds
  before the requested time is the sample -3000000000; the rule gives
  (3 * 10000 - 3000000000) / 4 = -749992500, the code narrows the sample to 1294967296,
  which exceeds the average, and stores it.  On a 64-bit platform with the average
  4000000000000000000 and the sample 21000, the rule gives 3000000000000005250, the sum
  wraps and the code stores -1611686018427382654.
\<close>

theorem latency_sample_wraps_counterexample:
  "hrtimer_avg_latency
     (hrtimer_callback_done 32 999969000 (at_time 100 999949000) (at_time 97 999949000)
        example_state) = 1294967296
   \<and> TIMESPEC_TO_NS (at_time 97 999949000) - TIMESPEC_TO_NS (at_time 100 999949000)
       = - 3000000000
   \<and> (3 * hrtimer_avg_latency example_state + (- 3000000000)) sdiv 4 = - 749992500
   \<and> hrtimer_avg_latency
       (hrtimer_callback_done 64 999969000 (at_time 100 999949000) (at_time 100 999970000)
          huge_avg_state) = - 1611686018427382654
   \<and> TIMESPEC_TO_NS (at_time 100 999970000) - TIMESPEC_TO_NS (at_time 100 999949000) = 21000
   \<and> (3 * hrtimer_avg_latency huge_avg_state + 21000) sdiv 4 = 3000000000000005250"
  unfolding done_backward_avg done_huge_avg
  by (simp add: signed_divide_int_def)

subsection \<open>C4: calibration\<close>




subsection \<open>C5: a late cycle\<close>

text \<open>
  C5, as amended.  On a late cycle (no clock regression, and the requested second differs
  from the actual one or the actual nanoseconds exceed the assert time) the callback
  returns \<^verbatim>\<open>HRTIMER_RESTART\<close> after one clock read; its trace is interrupt save, the clock
  read, interrupt restore and one missed-cycle report with the requested and the actual
  time, so the output is not written; the port write time is unchanged; and the latency
  tracker is fed the sample actual less requested, narrowed to a \<^verbatim>\<open>long\<close>.  When the
  sample, the sum 3 * avg + sample (if it is computed) and the nanoseconds of the new
  deadline fit a \<^verbatim>\<open>long\<close>, the new average is the one of the rule of C3 on the sample
  itself, and the timer is set for the requested second plus one, at the assert time less
  the new average and the safety interval.
\<close>

theorem hrtimer_callback_late:
  fixes s :: pps_gen_gpio and w :: world
  defines "assert \<equiv> NSEC_PER_SEC - gpio_instr_time s - uint (gpio_pulse_width_ns s)"
  defines "req \<equiv> KTIME_TO_TIMESPEC (timer_expires s)"
  defines "real \<equiv> clock w (reads w)"
  defines "sample \<equiv> TIMESPEC_TO_NS real - TIMESPEC_TO_NS req"
  defines "avg \<equiv> (if sample > hrtimer_avg_latency s then sample
                   else (3 * hrtimer_avg_latency s + sample) sdiv 4)"
  defines "w' \<equiv> w\<lparr>reads := Suc (reads w),
                    trace := trace w @ [Local_irq_save, Clock_read real, Local_irq_restore,
                                        Pr_err_late req real]\<rparr>"
  assumes no_regression: "\<not> tv_sec real > tv_sec req"
    and late: "tv_sec req \<noteq> tv_sec real \<or> tv_nsec real > assert"
  shows "(\<exists>s'. hrtimer_callback s w = Some (HRTIMER_RESTART, s', w')
            \<and> gpio_instr_time s' = gpio_instr_time s
            \<and> hrtimer_avg_latency s'
                = avg_latency_update (long_bits w) (hrtimer_avg_latency s)
                    (long_wrap (long_bits w) sample))
       \<and> (fits_long (long_bits w) sample
            \<and> (sample > hrtimer_avg_latency s
                \<or> fits_long (long_bits w) (3 * hrtimer_avg_latency s + sample))
            \<and> fits_long (long_bits w) (assert - avg - SAFETY_INTERVAL_NS)
          \<longrightarrow> hrtimer_callback s w =
                Some (HRTIMER_RESTART,
                      s\<lparr>hrtimer_avg_latency := avg,
                        timer_expires := ktime_set (tv_sec req + 1)
                                           (assert - avg - SAFETY_INTERVAL_NS)\<rparr>,
                      w'))"
proof -
  have c: "hrtimer_callback s w =
     Some (HRTIMER_RESTART, hrtimer_callback_done (long_bits w) assert req real s, w')"
    using late_cycle [where s = s and w = w] no_regression late
    unfolding assert_def req_def real_def w'_def by simp
  show ?thesis
    unfolding c hrtimer_callback_done_eq sample_def [symmetric]
    by (auto simp: long_wrap_id avg_latency_update_fits avg_def)
qed

theorem hrtimer_callback_late_witness:
  "hrtimer_callback example_state late_world =
     Some (HRTIMER_RESTART,
           example_state\<lparr>hrtimer_avg_latency := 21000, timer_expires := ktime_set 101 999938000\<rparr>,
           late_world\<lparr>reads := 1,
             trace := [Local_irq_save, Clock_read (at_time 100 999970000), Local_irq_restore,
                       Pr_err_late (at_time 100 999949000) (at_time 100 999970000)]\<rparr>)"
proof -
  have a: "\<not> tv_sec (clock late_world (reads late_world))
             > tv_sec (KTIME_TO_TIMESPEC (timer_expires example_state))"
    by (simp add: example_req)
  have b: "tv_sec (KTIME_TO_TIMESPEC (timer_expires example_state))
             \<noteq> tv_sec (clock late_world (reads late_world))
           \<or> tv_nsec (clock late_world (reads late_world))
             > NSEC_PER_SEC - gpio_instr_time example_state
                 - uint (gpio_pulse_width_ns example_state)"
    unfolding example_thresholds by simp
  note t = hrtimer_callback_late [OF a b, THEN conjunct2, unfolded example_thresholds]
  show ?thesis
    by (rule t [THEN mp, THEN trans])
       (simp_all add: example_req fits_long_def SAFETY_INTERVAL_NS_def NSEC_PER_USEC_def)
qed

text \<open>
  C5 as stated feeds the tracker the sample actual less requested.  On a 32-bit platform
  whose clock was set back by three seconds the cycle is late (the actual second 97 is not
  the requested second 100) and the sample is -3000000000; fed to the tracker it would
  give the average -749992500, the code narrows it to 1294967296 and stores that.  On a
  64-bit platform with the average 4000000000000000000 the late sample 21000 would give
  3000000000000005250, and the code stores -1611686018427382654.
\<close>

theorem late_sample_wraps_counterexample:
  "map_option (hrtimer_avg_latency \<circ> fst \<circ> snd) (hrtimer_callback example_state backward_world32)
     = Some 1294967296
   \<and> TIMESPEC_TO_NS (clock backward_world32 0)
       - TIMESPEC_TO_NS (KTIME_TO_TIMESPEC (timer_expires example_state)) = - 3000000000
   \<and> (3 * hrtimer_avg_latency example_state + (- 3000000000)) sdiv 4 = - 749992500
   \<and> map_option (hrtimer_avg_latency \<circ> fst \<circ> snd) (hrtimer_callback huge_avg_state late_world)
     = Some (- 1611686018427382654)
   \<and> TIMESPEC_TO_NS (clock late_world 0)
       - TIMESPEC_TO_NS (KTIME_TO_TIMESPEC (timer_expires huge_avg_state)) = 21000
   \<and> (3 * hrtimer_avg_latency huge_avg_state + 21000) sdiv 4 = 3000000000000005250"
  unfolding backward_example huge_avg_example
  by (simp add: done_backward_avg done_huge_avg example_req signed_divide_int_def)

subsection \<open>C6: a clock regression\<close>



subsection \<open>C7: the bound on the pulse width\<close>

text \<open>
  C7.  Module initialisation returns 0 and registers the driver for every pulse width
  from 0 to 100000 ns, and for every greater width it returns \<^verbatim>\<open>-EINVAL\<close>, logs the
  error and does not register the driver.
\<close>

theorem pps_gen_gpio_init_width:
  "pps_gen_gpio_init s w =
     (if unat (gpio_pulse_width_ns s) \<le> 100000
      then (0, w\<lparr>trace := trace w @ [Platform_driver_register]\<rparr>)
      else (- EINVAL, w\<lparr>trace := trace w @ [Pr_err_width]\<rparr>))"
  unfolding pps_gen_gpio_init_def GPIO_PULSE_WIDTH_MAX_NS_def NSEC_PER_USEC_def emit_def
  by (simp only: width_cmp mult_numeral_left_semiring_numeral arith_simps if_not_P if_P split: if_split) simp

theorem pps_gen_gpio_init_width_witness:
  "pps_gen_gpio_init (example_state\<lparr>gpio_pulse_width_ns := 100000\<rparr>) late_world
     = (0, late_world\<lparr>trace := [Platform_driver_register]\<rparr>)
   \<and> pps_gen_gpio_init (example_state\<lparr>gpio_pulse_width_ns := 100001\<rparr>) late_world
     = (- 22, late_world\<lparr>trace := [Pr_err_width]\<rparr>)"
  using pps_gen_gpio_init_width [of "example_state\<lparr>gpio_pulse_width_ns := 100000\<rparr>" late_world]
    pps_gen_gpio_init_width [of "example_state\<lparr>gpio_pulse_width_ns := 100001\<rparr>" late_world]
  by (simp add: EINVAL_def late_world_def world_of_def)

subsection \<open>C8: start-up\<close>




subsection \<open>C9: stop\<close>

text \<open>
  C9.  The claim has the timer cancelled first and the GPIO released only then.  The
  remove function does the reverse on every input: it returns 0 after releasing the GPIO
  and then cancelling the timer.  On the device a successful probe has left, whose last
  call started the timer, the release comes while the timer is armed.
\<close>

theorem pps_gen_gpio_remove_order:
  "pps_gen_gpio_remove s w = (0, s, w\<lparr>trace := trace w @ [Devm_gpiod_put, Hrtimer_cancel]\<rparr>)
   \<and> last (trace (snd (snd (pps_gen_gpio_probe good_env example_state ticking_world))))
       = Hrtimer_start (ktime_set 51 999939600)"
  unfolding probe_last_call
  by (simp add: pps_gen_gpio_remove_def emit_def)

subsection \<open>C10: the busy loops end\<close>

text \<open>
  C10.  Under a clock whose second differs from the requested second from read \<open>K\<close> on,
  a busy loop for the requested second returns, whatever its limit and whenever it is
  entered: its last read \<open>m\<close> is its first read or a read not after \<open>K\<close>, every read
  before \<open>m\<close> satisfies the loop condition (it is in the requested second, below the
  limit) and read \<open>m\<close> does not.  So the callback returns.  (Lemma \<open>busy_loop_None\<close>: under
  a clock that satisfies the loop condition for ever the loop does not return.)
\<close>

theorem busy_loops_terminate:
  fixes s :: pps_gen_gpio and w :: world and K :: nat
  defines "req \<equiv> KTIME_TO_TIMESPEC (timer_expires s)"
  assumes leaves: "\<forall>k\<ge>K. tv_sec (clock w k) \<noteq> tv_sec req"
  shows "(\<forall>lim w'. clock w' = clock w \<longrightarrow>
            (\<exists>m. busy_loop (tv_sec req) lim w'
                   = Some (clock w m,
                           w'\<lparr>reads := Suc m,
                              trace := trace w' @ clock_reads w (reads w') (Suc m)\<rparr>)
                 \<and> reads w' \<le> m \<and> m \<le> max (reads w') K
                 \<and> list_all (busy_cond (tv_sec req) lim) (map (clock w) [reads w'..<m])
                 \<and> \<not> busy_cond (tv_sec req) lim (clock w m)))
         \<and> hrtimer_callback s w \<noteq> None"
proof (intro conjI allI impI)
  fix lim :: int and w' :: world
  assume c: "clock w' = clock w"
  from loop_last_read_leaves [OF leaves, of "reads w'" lim]
  obtain m where le: "m \<le> max (reads w') K"
    and l: "loop_last_read (tv_sec req) lim (clock w) (reads w') m"
    by blast
  have "busy_loop (tv_sec req) lim w'
          = Some (clock w m,
                  w'\<lparr>reads := Suc m, trace := trace w' @ clock_reads w (reads w') (Suc m)\<rparr>)"
    using busy_loop_last_read [of "tv_sec req" lim w' m] l
    by (simp add: c clock_reads_def)
  with le l show "\<exists>m. busy_loop (tv_sec req) lim w'
                   = Some (clock w m,
                           w'\<lparr>reads := Suc m,
                              trace := trace w' @ clock_reads w (reads w') (Suc m)\<rparr>)
                 \<and> reads w' \<le> m \<and> m \<le> max (reads w') K
                 \<and> list_all (busy_cond (tv_sec req) lim) (map (clock w) [reads w'..<m])
                 \<and> \<not> busy_cond (tv_sec req) lim (clock w m)"
    unfolding loop_last_read_def by blast
next
  show "hrtimer_callback s w \<noteq> None"
  proof (cases "tv_sec (clock w (reads w)) > tv_sec req")
    case True
    then show ?thesis
      by (simp add: hrtimer_callback_def Let_def req_def case_prod_beta)
  next
    case False
    from hrtimer_callback_returns [where s = s and w = w and K = K] False leaves
    show ?thesis unfolding req_def by auto
  qed
qed

theorem busy_loops_terminate_witness:
  "busy_loop 100 999969000 (stuck_world\<lparr>reads := 1\<rparr>)
     = Some (at_time 101 0,
             stuck_world\<lparr>reads := 4,
               trace := [Clock_read (at_time 100 999950100), Clock_read (at_time 100 999950200),
                         Clock_read (at_time 101 0)]\<rparr>)
   \<and> hrtimer_callback example_state stuck_world \<noteq> None"
proof -
  have leaves: "\<forall>k\<ge>3. tv_sec (clock stuck_world k)
                  \<noteq> tv_sec (KTIME_TO_TIMESPEC (timer_expires example_state))"
    by (simp add: example_thresholds listed_clock_def)
  note t = busy_loops_terminate [OF leaves, unfolded example_thresholds]
  from t have r: "hrtimer_callback example_state stuck_world \<noteq> None"
    by blast
  have c: "clock (stuck_world\<lparr>reads := 1\<rparr>) = clock stuck_world"
    by simp
  note t [THEN conjunct1, rule_format, OF c, where lim = 999969000]
  then obtain m where b: "busy_loop 100 999969000 (stuck_world\<lparr>reads := 1\<rparr>)
                   = Some (clock stuck_world m,
                           stuck_world\<lparr>reads := Suc m,
                              trace := clock_reads stuck_world 1 (Suc m)\<rparr>)"
    and m: "1 \<le> m" "m \<le> 3" and n: "\<not> busy_cond 100 999969000 (clock stuck_world m)"
    by auto
  have "m = 1 \<or> m = 2 \<or> m = 3" using m by arith
  with n have "m = 3"
    by (auto simp: busy_cond_def numeral_2_eq_2)
  with b have "busy_loop 100 999969000 (stuck_world\<lparr>reads := 1\<rparr>)
     = Some (at_time 101 0,
             stuck_world\<lparr>reads := 4,
               trace := [Clock_read (at_time 100 999950100), Clock_read (at_time 100 999950200),
                         Clock_read (at_time 101 0)]\<rparr>)"
    by (simp add: clock_reads_def numeral_3_eq_3 upt_conv_Cons)
  with r show ?thesis by simp
qed

end
